theory Spec2Isabelle
  imports Main "HOL-Library.Word"
begin

section \<open>Python values\<close>

text \<open>
  A Python \<open>str\<close> is a sequence of Unicode code points, so it is modelled as a list of
  natural numbers: \<open>len\<close> is \<open>length\<close>, slicing is \<open>take\<close> and \<open>drop\<close>. A \<open>bytes\<close>
  value is a list of 8-bit words. ASCII literals of the source are written with \<open>str\<close>
  and \<open>bstr\<close>; the Thai literals of the source are given by their code points.
\<close>

type_synonym pystr = "nat list"
type_synonym bytes = "8 word list"

definition str :: "string \<Rightarrow> pystr" where
  "str cs = map of_char cs"

definition bstr :: "string \<Rightarrow> bytes" where
  "bstr cs = map of_char cs"

text \<open>The exceptions that can leave the functions modelled here.\<close>

datatype error = ValueError pystr | OSError | UnicodeError | UnicodeEncodeError

subsection \<open>String methods\<close>

text \<open>\<open>sub in s\<close>: the substring test.\<close>

fun starts_with :: "pystr \<Rightarrow> pystr \<Rightarrow> bool" where
  "starts_with [] s = True"
| "starts_with (p # ps) [] = False"
| "starts_with (p # ps) (c # cs) = (p = c \<and> starts_with ps cs)"

fun contains :: "pystr \<Rightarrow> pystr \<Rightarrow> bool" where
  "contains sub [] = (sub = [])"
| "contains sub (c # cs) = (starts_with sub (c # cs) \<or> contains sub cs)"

text \<open>
  \<open>str.isspace\<close> for one code point: the characters CPython lists in
  \<open>_PyUnicode_IsWhitespace\<close>.
\<close>

definition isspace :: "nat \<Rightarrow> bool" where
  "isspace c = ((0x09 \<le> c \<and> c \<le> 0x0D) \<or> (0x1C \<le> c \<and> c \<le> 0x20) \<or> c = 0x85 \<or> c = 0xA0
      \<or> c = 0x1680 \<or> (0x2000 \<le> c \<and> c \<le> 0x200A) \<or> c = 0x2028 \<or> c = 0x2029
      \<or> c = 0x202F \<or> c = 0x205F \<or> c = 0x3000)"

text \<open>\<open>s.strip()\<close> removes leading and trailing whitespace.\<close>

definition strip :: "pystr \<Rightarrow> pystr" where
  "strip s = rev (dropWhile isspace (rev (dropWhile isspace s)))"

text \<open>
  \<open>s.splitlines()\<close>: the line boundaries of CPython's \<open>_PyUnicode_IsLinebreak\<close>, with
  \<open>\r\n\<close> counted as one boundary, the boundaries not kept, and no empty last line.
\<close>

definition is_linebreak :: "nat \<Rightarrow> bool" where
  "is_linebreak c = (c = 0x0A \<or> c = 0x0B \<or> c = 0x0C \<or> c = 0x0D \<or> c = 0x1C \<or> c = 0x1D
      \<or> c = 0x1E \<or> c = 0x85 \<or> c = 0x2028 \<or> c = 0x2029)"

fun splitlines_from :: "pystr \<Rightarrow> pystr \<Rightarrow> pystr list" where
  "splitlines_from cur [] = (if cur = [] then [] else [cur])"
| "splitlines_from cur (c # cs) =
     (if c = 0x0D \<and> cs \<noteq> [] \<and> hd cs = 0x0A then cur # splitlines_from [] (tl cs)
      else if is_linebreak c then cur # splitlines_from [] cs
      else splitlines_from (cur @ [c]) cs)"

definition splitlines :: "pystr \<Rightarrow> pystr list" where
  "splitlines s = splitlines_from [] s"

text \<open>\<open>sep.join(parts)\<close>.\<close>

fun join :: "'a list \<Rightarrow> 'a list list \<Rightarrow> 'a list" where
  "join sep [] = []"
| "join sep [p] = p"
| "join sep (p # q # ps) = p @ sep @ join sep (q # ps)"

text \<open>\<open>s.replace(old, new)\<close> for a one-character \<open>old\<close>.\<close>

definition replace_char :: "nat \<Rightarrow> pystr \<Rightarrow> pystr \<Rightarrow> pystr" where
  "replace_char old new s = concat (map (\<lambda>c. if c = old then new else [c]) s)"

text \<open>
  \<open>str.lower\<close> and \<open>str.upper\<close>. On a string of ASCII characters they map the letters
  and nothing else. On any other string the result is that of Unicode's case mapping,
  which is not defined in the repository: it is the parameter \<open>unicode_map\<close>.
\<close>

definition ascii_lower :: "nat \<Rightarrow> nat" where
  "ascii_lower c = (if 65 \<le> c \<and> c \<le> 90 then c + 32 else c)"

definition ascii_upper :: "nat \<Rightarrow> nat" where
  "ascii_upper c = (if 97 \<le> c \<and> c \<le> 122 then c - 32 else c)"

definition is_ascii :: "pystr \<Rightarrow> bool" where
  "is_ascii s = list_all (\<lambda>c. c < 128) s"

definition lower :: "(pystr \<Rightarrow> pystr) \<Rightarrow> pystr \<Rightarrow> pystr" where
  "lower unicode_map s = (if is_ascii s then map ascii_lower s else unicode_map s)"

definition upper :: "(pystr \<Rightarrow> pystr) \<Rightarrow> pystr \<Rightarrow> pystr" where
  "upper unicode_map s = (if is_ascii s then map ascii_upper s else unicode_map s)"

text \<open>\<open>str(n)\<close> and the format \<open>{n:010d}\<close> for integers.\<close>

fun nat_str :: "nat \<Rightarrow> pystr" where
  "nat_str n = (if n < 10 then [48 + n] else nat_str (n div 10) @ [48 + n mod 10])"

declare nat_str.simps [simp del]

definition int_str :: "int \<Rightarrow> pystr" where
  "int_str i = (if i < 0 then 45 # nat_str (nat (- i)) else nat_str (nat i))"

definition format_010d :: "nat \<Rightarrow> pystr" where
  "format_010d n = replicate (10 - length (nat_str n)) 48 @ nat_str n"

text \<open>
  \<open>s.encode("ascii")\<close> raises on a character outside ASCII;
  \<open>s.encode("latin-1", errors="replace")\<close> writes \<open>?\<close> for a character outside Latin-1.
\<close>

definition encode_ascii :: "pystr \<Rightarrow> error + bytes" where
  "encode_ascii s = (if is_ascii s then Inr (map of_nat s) else Inl UnicodeEncodeError)"

definition encode_latin1_replace :: "pystr \<Rightarrow> bytes" where
  "encode_latin1_replace s = map (\<lambda>c. if c < 256 then of_nat c else 63) s"

section \<open>Regular expressions\<close>

text \<open>
  The fragment of Python's \<open>re\<close> syntax that \<open>scanner.py\<close> uses, as a syntax tree, and a
  backtracking matcher written as a list of successes. A matcher state is the number of
  characters consumed so far and the rest of the input; matching an expression in a state
  gives every state in which a match of it can end, in the order in which \<open>re\<close> tries
  them. The pattern matches when that list is not empty, which is what the backtracking
  of \<open>re\<close> decides. Capture groups record nothing that the source reads, so \<open>(r)\<close> is \<open>r\<close>.
\<close>

datatype regex =
    Bos                          \<comment> \<open>\<open>^\<close>\<close>
  | Eos                          \<comment> \<open>\<open>$\<close>: at the end, or before a newline that ends the string\<close>
  | Dot                          \<comment> \<open>\<open>.\<close>: any character except a newline\<close>
  | Lit nat                      \<comment> \<open>one literal character\<close>
  | Class "(nat \<times> nat) list"     \<comment> \<open>\<open>[a-bc-d]\<close>: a list of inclusive ranges\<close>
  | Seq regex regex              \<comment> \<open>\<open>rs\<close>\<close>
  | Repeat nat nat regex         \<comment> \<open>\<open>r{lo,hi}\<close>\<close>
  | Plus regex                   \<comment> \<open>\<open>r+\<close>\<close>
  | Lookahead regex              \<comment> \<open>\<open>(?=r)\<close>\<close>
  | NegLookahead regex           \<comment> \<open>\<open>(?!r)\<close>\<close>

type_synonym rstate = "nat \<times> pystr"

definition in_ranges :: "(nat \<times> nat) list \<Rightarrow> nat \<Rightarrow> bool" where
  "in_ranges rs c = list_ex (\<lambda>(lo, hi). lo \<le> c \<and> c \<le> hi) rs"

definition one_char :: "(nat \<Rightarrow> bool) \<Rightarrow> rstate \<Rightarrow> rstate list" where
  "one_char p st = (case snd st of [] \<Rightarrow> [] | c # cs \<Rightarrow> if p c then [(Suc (fst st), cs)] else [])"

text \<open>
  \<open>rep f lo hi\<close>: between \<open>lo\<close> and \<open>hi\<close> repetitions of the matcher \<open>f\<close>, the longer
  ones first.
\<close>

primrec rep :: "(rstate \<Rightarrow> rstate list) \<Rightarrow> nat \<Rightarrow> nat \<Rightarrow> rstate \<Rightarrow> rstate list" where
  "rep f lo 0 st = (if lo = 0 then [st] else [])"
| "rep f lo (Suc hi) st =
     concat (map (rep f (lo - 1) hi) (f st)) @ (if lo = 0 then [st] else [])"

text \<open>
  An unbounded repetition \<open>r+\<close> is run for at most as many rounds as there are characters
  left (and at least one): a round that consumes nothing reaches no new state.
\<close>

primrec rmatch :: "regex \<Rightarrow> rstate \<Rightarrow> rstate list" where
  "rmatch Bos st = (if fst st = 0 then [st] else [])"
| "rmatch Eos st = (if snd st = [] \<or> snd st = [0x0A] then [st] else [])"
| "rmatch Dot st = one_char (\<lambda>c. c \<noteq> 0x0A) st"
| "rmatch (Lit a) st = one_char (\<lambda>c. c = a) st"
| "rmatch (Class rs) st = one_char (in_ranges rs) st"
| "rmatch (Seq r1 r2) st = concat (map (rmatch r2) (rmatch r1 st))"
| "rmatch (Repeat lo hi r) st = rep (rmatch r) lo hi st"
| "rmatch (Plus r) st = rep (rmatch r) 1 (max 1 (length (snd st))) st"
| "rmatch (Lookahead r) st = (if rmatch r st \<noteq> [] then [st] else [])"
| "rmatch (NegLookahead r) st = (if rmatch r st = [] then [st] else [])"

text \<open>\<open>pattern.match(s)\<close> as a truth value: a match that starts at position 0.\<close>

definition re_match :: "regex \<Rightarrow> pystr \<Rightarrow> bool" where
  "re_match r s = (rmatch r (0, s) \<noteq> [])"

section \<open>scanner.py\<close>

text \<open>
  \<open>DOMAIN_PATTERN = re.compile(r"^(?=.{1,253}$)(?!-)([A-Za-z0-9-]{1,63}\.)+[A-Za-z]{2,63}$")\<close>
\<close>

definition label_class :: "(nat \<times> nat) list" where
  "label_class = [(65, 90), (97, 122), (48, 57), (45, 45)]"

definition alpha_class :: "(nat \<times> nat) list" where
  "alpha_class = [(65, 90), (97, 122)]"

definition DOMAIN_PATTERN :: regex where
  "DOMAIN_PATTERN =
     Seq Bos
    (Seq (Lookahead (Seq (Repeat 1 253 Dot) Eos))
    (Seq (NegLookahead (Lit 45))
    (Seq (Plus (Seq (Repeat 1 63 (Class label_class)) (Lit 46)))
    (Seq (Repeat 2 63 (Class alpha_class))
         Eos))))"

subsection \<open>The Thai messages\<close>

text \<open>The messages of \<open>scanner.py\<close> that are not ASCII, by their code points.\<close>

definition msg_empty_target :: pystr where
  \<comment> \<open>the message of line 29 of scanner.py (the target is empty)\<close>
  "msg_empty_target =
     [3585, 3619, 3640, 3603, 3634, 3619, 3632, 3610, 3640, 3648, 3611, 3657, 3634, 3627,
     3617, 3634, 3618]"

definition msg_bad_domain :: pystr where
  \<comment> \<open>the message of line 37 (the domain is not valid)\<close>
  "msg_bad_domain =
     [3650, 3604, 3648, 3617, 3609, 3652, 3617, 3656, 3606, 3641, 3585, 3605, 3657, 3629,
     3591]"

definition msg_bad_url :: pystr where
  \<comment> \<open>the message of line 43 (the URL must start with http:// or https://)\<close>
  "msg_bad_url =
     [85, 82, 76, 32, 3605, 3657, 3629, 3591, 3586, 3638, 3657, 3609, 3605, 3657, 3609, 3604,
     3657, 3623, 3618, 32, 104, 116, 116, 112, 58, 47, 47, 32, 3627, 3619, 3639, 3629, 32,
     104, 116, 116, 112, 115, 58, 47, 47]"

definition msg_bad_type :: pystr where
  \<comment> \<open>the message of line 46 (the target type is not valid)\<close>
  "msg_bad_type =
     [3611, 3619, 3632, 3648, 3616, 3607, 3648, 3611, 3657, 3634, 3627, 3617, 3634, 3618,
     3652, 3617, 3656, 3606, 3641, 3585, 3605, 3657, 3629, 3591]"

definition msg_no_nmap :: pystr where
  \<comment> \<open>the reason of line 77 (nmap was not found)\<close>
  "msg_no_nmap =
     [3652, 3617, 3656, 3614, 3610, 32, 110, 109, 97, 112, 32, 3651, 3609, 3619, 3632, 3610,
     3610]"

definition msg_nmap_hint :: pystr where
  \<comment> \<open>the hint of line 78\<close>
  "msg_nmap_hint =
     [3605, 3636, 3604, 3605, 3633, 3657, 3591, 32, 110, 109, 97, 112, 32, 3585, 3656, 3629,
     3609, 3651, 3594, 3657, 3591, 3634, 3609, 3592, 3619, 3636, 3591, 32, 3627, 3619, 3639,
     3629, 3619, 3633, 3609, 3607, 3604, 3626, 3629, 3610, 3651, 3609, 32, 75, 97, 108, 105,
     32, 76, 105, 110, 117, 120]"

definition msg_no_host :: pystr where
  \<comment> \<open>the reason of line 85 (no host in the URL)\<close>
  "msg_no_host =
     [3652, 3617, 3656, 3626, 3634, 3617, 3634, 3619, 3606, 3649, 3618, 3585, 32, 104, 111,
     115, 116, 32, 3592, 3634, 3585, 32, 85, 82, 76]"

definition msg_zap_url_only :: pystr where
  \<comment> \<open>the reason of line 118 (OWASP ZAP is for URLs only)\<close>
  "msg_zap_url_only =
     [79, 87, 65, 83, 80, 32, 90, 65, 80, 32, 3651, 3594, 3657, 3585, 3633, 3610, 32, 85, 82,
     76, 32, 3648, 3607, 3656, 3634, 3609, 3633, 3657, 3609]"

definition msg_no_zap :: pystr where
  \<comment> \<open>the reason of line 125 (OWASP ZAP was not found)\<close>
  "msg_no_zap =
     [3652, 3617, 3656, 3614, 3610, 32, 79, 87, 65, 83, 80, 32, 90, 65, 80, 32, 3651, 3609,
     3619, 3632, 3610, 3610]"

definition msg_zap_check2 :: pystr where
  \<comment> \<open>the second simulated check of line 128\<close>
  "msg_zap_check2 =
     [83, 112, 105, 100, 101, 114, 32, 43, 32, 65, 99, 116, 105, 118, 101, 32, 115, 99, 97,
     110, 32, 3605, 3634, 3617, 3650, 3627, 3617, 3604, 3607, 3637, 3656, 3648, 3621, 3639,
     3629, 3585]"

definition msg_zap_note_pre :: pystr where
  \<comment> \<open>the text before the scan mode in the note of line 130\<close>
  "msg_zap_note_pre =
     [58, 32, 3649, 3609, 3632, 3609, 3635, 3619, 3633, 3609, 3612, 3656, 3634, 3609, 32, 90,
     65, 80, 32, 65, 80, 73, 32, 3648, 3614, 3639, 3656, 3629, 3648, 3585, 3655, 3610, 3619,
     3634, 3618, 3591, 3634, 3609, 3592, 3619, 3636, 3591]"

definition msg_zap_note_post :: pystr where
  \<comment> \<open>the text after the scan mode in the note of line 130\<close>
  "msg_zap_note_post =
     [3650, 3627, 3617, 3604, 32]"

definition msg_zap_available :: pystr where
  \<comment> \<open>the note of line 136\<close>
  "msg_zap_available =
     [3614, 3610, 32, 90, 65, 80, 32, 3651, 3609, 3619, 3632, 3610, 3610, 32, 3649, 3605,
     3656, 3605, 3633, 3623, 3629, 3618, 3656, 3634, 3591, 3609, 3637, 3657, 3652, 3617,
     3656, 3652, 3604, 3657, 3648, 3619, 3637, 3618, 3585, 32, 97, 99, 116, 105, 118, 101,
     32, 115, 99, 97, 110, 32, 3592, 3619, 3636, 3591, 3648, 3614, 3639, 3656, 3629, 3588,
     3623, 3634, 3617, 3611, 3621, 3629, 3604, 3616, 3633, 3618]"

definition msg_arachni_url_only :: pystr where
  \<comment> \<open>the reason of line 144 (Arachni is for URLs only)\<close>
  "msg_arachni_url_only =
     [65, 114, 97, 99, 104, 110, 105, 32, 3651, 3594, 3657, 3585, 3633, 3610, 32, 85, 82, 76,
     32, 3648, 3607, 3656, 3634, 3609, 3633, 3657, 3609]"

definition msg_no_arachni :: pystr where
  \<comment> \<open>the reason of line 151 (Arachni was not found)\<close>
  "msg_no_arachni =
     [3652, 3617, 3656, 3614, 3610, 32, 65, 114, 97, 99, 104, 110, 105, 32, 3651, 3609, 3619,
     3632, 3610, 3610]"

definition msg_arachni_note :: pystr where
  \<comment> \<open>the note of line 153\<close>
  "msg_arachni_note =
     [3626, 3634, 3617, 3634, 3619, 3606, 3605, 3656, 3629, 3618, 3629, 3604, 3604, 3657,
     3623, 3618, 32, 97, 114, 97, 99, 104, 110, 105, 95, 114, 101, 112, 111, 114, 116, 101,
     114, 32, 3648, 3614, 3639, 3656, 3629, 32, 101, 120, 112, 111, 114, 116, 32, 74, 83, 79,
     78]"

definition msg_arachni_available :: pystr where
  \<comment> \<open>the note of line 159\<close>
  "msg_arachni_available =
     [3614, 3610, 32, 65, 114, 97, 99, 104, 110, 105, 32, 3651, 3609, 3619, 3632, 3610, 3610,
     32, 3649, 3605, 3656, 3611, 3636, 3604, 3585, 3634, 3619, 3618, 3636, 3591, 3592, 3619,
     3636, 3591, 3651, 3609, 3648, 3604, 3650, 3617]"

definition msg_timeout :: pystr where
  \<comment> \<open>the message of line 183 (the command timed out)\<close>
  "msg_timeout =
     [3588, 3635, 3626, 3633, 3656, 3591, 3627, 3617, 3604, 3648, 3623, 3621, 3634, 32, 40,
     116, 105, 109, 101, 111, 117, 116, 41]"

subsection \<open>The world outside the repository\<close>

text \<open>
  The library functions and system calls that \<open>scanner.py\<close> and \<open>app.py\<close> use are not
  code of the repository. Their answers are parameters of the model, collected in one
  record:
  \<^item> \<open>unicode_lower\<close>, \<open>unicode_upper\<close>: the case mappings on strings that are not ASCII;
  \<^item> \<open>ip_address\<close>: \<open>ipaddress.ip_address\<close>, \<open>None\<close> when the literal parses and the
    message of the \<open>ValueError\<close> otherwise;
  \<^item> \<open>urlparse\<close>: \<open>urllib.parse.urlparse\<close>, which returns the parts of the URL or raises;
  \<^item> \<open>which\<close>: \<open>shutil.which\<close>;
  \<^item> \<open>subprocess_run\<close>: \<open>subprocess.run\<close> with the arguments of \<open>_run_command\<close>, which
    completes, runs into the timeout of 120 seconds, or raises another exception;
  \<^item> \<open>gethostbyname\<close>: \<open>socket.gethostbyname\<close>;
  \<^item> \<open>utcnow_isoformat\<close>: the readings of the clock, in the order they are taken.
\<close>

record url_parts =
  scheme :: pystr
  netloc :: pystr
  hostname :: "pystr option"

datatype proc_result = Completed int pystr pystr | TimeoutExpired | SpawnError

datatype resolve_result = Resolved pystr | ResolveOSError | ResolveOtherError

record world =
  unicode_lower :: "pystr \<Rightarrow> pystr"
  unicode_upper :: "pystr \<Rightarrow> pystr"
  ip_address :: "pystr \<Rightarrow> pystr option"
  urlparse :: "pystr \<Rightarrow> error + url_parts"
  which :: "pystr \<Rightarrow> pystr option"
  subprocess_run :: "pystr list \<Rightarrow> proc_result"
  gethostbyname :: "pystr \<Rightarrow> resolve_result"
  utcnow_isoformat :: "nat \<Rightarrow> pystr"

text \<open>Sequencing of computations that may raise.\<close>

definition and_then :: "error + 'a \<Rightarrow> ('a \<Rightarrow> error + 'b) \<Rightarrow> error + 'b" where
  "and_then r f = (case r of Inl e \<Rightarrow> Inl e | Inr x \<Rightarrow> f x)"

text \<open>
  The truth value of \<open>x\<close> in \<open>if not x\<close> and \<open>x or y\<close>, for an \<open>x\<close> that is \<open>None\<close> or a
  string.
\<close>

definition truthy :: "pystr option \<Rightarrow> bool" where
  "truthy x = (case x of None \<Rightarrow> False | Some v \<Rightarrow> v \<noteq> [])"

subsection \<open>The data of a scan\<close>

text \<open>
  \<open>ScanConfig\<close> is the dataclass of the source (its fields carry the prefix \<open>config_\<close>,
  the fields of the result of a scan the prefix \<open>result_\<close>). The dictionaries that \<open>scanner.py\<close> builds
  are records: the dictionary \<open>_run_command\<close> returns, the phase \<open>run_nmap\<close> makes of it,
  the finding of an adapter (a key that an adapter may leave out is an option), and the
  result of \<open>run_scan\<close>. The \<open>findings\<close> dictionary is an association list in insertion
  order, as a Python \<open>dict\<close> is.
\<close>

record ScanConfig =
  config_target :: pystr
  config_target_type :: pystr
  config_scan_mode :: pystr
  config_tools :: "pystr list"

record command_outcome =
  command :: pystr
  return_code :: int
  stdout :: pystr
  stderr :: pystr

record phase =
  phase_name :: pystr
  phase_command :: pystr
  phase_return_code :: int
  phase_stdout :: pystr
  phase_stderr :: pystr

record finding =
  status :: pystr
  reason :: "pystr option"
  hint :: "pystr option"
  simulated_checks :: "pystr list option"
  finding_note :: "pystr option"
  binary :: "pystr option"
  target_resolved :: "pystr option"
  phases :: "phase list option"

record scan_result =
  result_target :: pystr
  result_target_type :: pystr
  result_scan_mode :: pystr
  result_tools :: "pystr list"
  started_at :: pystr
  finished_at :: pystr
  findings :: "(pystr \<times> finding) list"

text \<open>A finding with the status and no other key.\<close>

definition finding_of_status :: "pystr \<Rightarrow> finding" where
  "finding_of_status s =
     \<lparr>status = s, reason = None, hint = None, simulated_checks = None, finding_note = None,
      binary = None, target_resolved = None, phases = None\<rparr>"

text \<open>\<open>d[k] = v\<close> and \<open>d.get(k)\<close> on a dictionary in insertion order.\<close>

fun dict_set :: "('k \<times> 'v) list \<Rightarrow> 'k \<Rightarrow> 'v \<Rightarrow> ('k \<times> 'v) list" where
  "dict_set [] k v = [(k, v)]"
| "dict_set ((k', v') # d) k v = (if k' = k then (k, v) # d else (k', v') # dict_set d k v)"

definition dict_get :: "('k \<times> 'v) list \<Rightarrow> 'k \<Rightarrow> 'v option" where
  "dict_get d k = map_of d k"

subsection \<open>validate_target\<close>

definition validate_target :: "world \<Rightarrow> pystr \<Rightarrow> pystr \<Rightarrow> error + pystr" where
  "validate_target w target_in target_type =
     (let target = strip target_in in
      if target = [] then Inl (ValueError msg_empty_target)
      else if target_type = str ''ip'' then
        (case ip_address w target of
           Some message \<Rightarrow> Inl (ValueError message)
         | None \<Rightarrow> Inr target)
      else if target_type = str ''domain'' then
        (if \<not> re_match DOMAIN_PATTERN target then Inl (ValueError msg_bad_domain)
         else Inr (lower (unicode_lower w) target))
      else if target_type = str ''url'' then
        and_then (urlparse w target) (\<lambda>parsed.
          if scheme parsed \<notin> {str ''http'', str ''https''} \<or> netloc parsed = []
          then Inl (ValueError msg_bad_url)
          else Inr target)
      else Inl (ValueError msg_bad_type))"

subsection \<open>_run_command and resolve_target\<close>

text \<open>\<open>s[-n:]\<close> for a positive \<open>n\<close>: the last \<open>n\<close> characters, or all of \<open>s\<close>.\<close>

definition last_chars :: "nat \<Rightarrow> 'a list \<Rightarrow> 'a list" where
  "last_chars n s = drop (length s - n) s"

definition run_command :: "world \<Rightarrow> pystr list \<Rightarrow> error + command_outcome" where
  "run_command w cmd =
     (case subprocess_run w cmd of
        Completed returncode out err \<Rightarrow>
          Inr \<lparr>command = join (str '' '') cmd,
               return_code = returncode,
               stdout = last_chars 6000 out,
               stderr = last_chars 3000 err\<rparr>
      | TimeoutExpired \<Rightarrow>
          Inr \<lparr>command = join (str '' '') cmd,
               return_code = - 1,
               stdout = [],
               stderr = msg_timeout\<rparr>
      | SpawnError \<Rightarrow> Inl OSError)"

definition resolve_target :: "world \<Rightarrow> pystr \<Rightarrow> error + pystr" where
  "resolve_target w t =
     (case gethostbyname w t of
        Resolved address \<Rightarrow> Inr address
      | ResolveOSError \<Rightarrow> Inr (str ''unresolved'')
      | ResolveOtherError \<Rightarrow> Inl UnicodeError)"

subsection \<open>The adapters\<close>

text \<open>The loop of \<open>run_nmap\<close> over the phase commands, which stops at the first exception.\<close>

fun run_phases :: "world \<Rightarrow> (pystr \<times> pystr list) list \<Rightarrow> error + phase list" where
  "run_phases w [] = Inr []"
| "run_phases w ((name, cmd) # rest) =
     and_then (run_command w cmd) (\<lambda>output.
     and_then (run_phases w rest) (\<lambda>more.
       Inr (\<lparr>phase_name = name,
             phase_command = command output,
             phase_return_code = return_code output,
             phase_stdout = stdout output,
             phase_stderr = stderr output\<rparr> # more)))"

definition phase_commands :: "pystr \<Rightarrow> pystr \<Rightarrow> pystr \<Rightarrow> (pystr \<times> pystr list) list" where
  "phase_commands nmap_bin target_for_nmap scan_mode =
     [(str ''host_discovery'', [nmap_bin, str ''-sn'', target_for_nmap]),
      (str ''port_service_detection'',
         [nmap_bin, str ''-sV'', str ''--top-ports'', str ''100'', target_for_nmap])]
     @ (if scan_mode \<in> {str ''balanced'', str ''deep''}
        then [(str ''vulnerability_nse'',
                 [nmap_bin, str ''-sV'', str ''--script'', str ''vulners'', target_for_nmap])]
        else [])"

definition run_nmap_on :: "world \<Rightarrow> pystr \<Rightarrow> pystr \<Rightarrow> pystr \<Rightarrow> error + finding" where
  \<comment> \<open>\<open>run_nmap\<close> from the loop over the phases on\<close>
  "run_nmap_on w nmap_bin target_for_nmap scan_mode =
     and_then (run_phases w (phase_commands nmap_bin target_for_nmap scan_mode)) (\<lambda>ps.
     and_then (resolve_target w target_for_nmap) (\<lambda>resolved.
       Inr ((finding_of_status (str ''completed''))
              \<lparr>target_resolved := Some resolved, phases := Some ps\<rparr>)))"

definition run_nmap :: "world \<Rightarrow> pystr \<Rightarrow> pystr \<Rightarrow> pystr \<Rightarrow> error + finding" where
  "run_nmap w target target_type scan_mode =
     (let nmap_bin = which w (str ''nmap'') in
      if \<not> truthy nmap_bin then
        Inr ((finding_of_status (str ''skipped''))
               \<lparr>reason := Some msg_no_nmap, hint := Some msg_nmap_hint\<rparr>)
      else if target_type = str ''url'' then
        and_then (urlparse w target) (\<lambda>parsed.
          if \<not> truthy (hostname parsed) then
            Inr ((finding_of_status (str ''error'')) \<lparr>reason := Some msg_no_host\<rparr>)
          else run_nmap_on w (the nmap_bin) (the (hostname parsed)) scan_mode)
      else run_nmap_on w (the nmap_bin) target scan_mode)"

definition run_zap :: "world \<Rightarrow> pystr \<Rightarrow> pystr \<Rightarrow> pystr \<Rightarrow> finding" where
  "run_zap w target target_type scan_mode =
     (if target_type \<noteq> str ''url'' then
        (finding_of_status (str ''skipped'')) \<lparr>reason := Some msg_zap_url_only\<rparr>
      else
        let zap_bin = (if truthy (which w (str ''zap.sh'')) then which w (str ''zap.sh'')
                       else which w (str ''zaproxy'')) in
        if \<not> truthy zap_bin then
          (finding_of_status (str ''simulated''))
            \<lparr>reason := Some msg_no_zap,
             simulated_checks := Some [str ''Passive scan (headers, cookies, TLS)'',
                                       str ''Spider + Active scan '' @ msg_zap_check2],
             finding_note := Some (msg_zap_note_pre @ scan_mode @ msg_zap_note_post)\<rparr>
        else
          (finding_of_status (str ''available''))
            \<lparr>binary := zap_bin, finding_note := Some msg_zap_available\<rparr>)"

definition run_arachni :: "world \<Rightarrow> pystr \<Rightarrow> pystr \<Rightarrow> pystr \<Rightarrow> finding" where
  "run_arachni w target target_type scan_mode =
     (if target_type \<noteq> str ''url'' then
        (finding_of_status (str ''skipped'')) \<lparr>reason := Some msg_arachni_url_only\<rparr>
      else
        let arachni_bin = which w (str ''arachni'') in
        if \<not> truthy arachni_bin then
          (finding_of_status (str ''simulated''))
            \<lparr>reason := Some msg_no_arachni,
             simulated_checks := Some [str ''XSS'', str ''SQL Injection''],
             finding_note := Some msg_arachni_note\<rparr>
        else
          (finding_of_status (str ''available''))
            \<lparr>binary := arachni_bin, finding_note := Some msg_arachni_available\<rparr>)"

subsection \<open>run_scan\<close>

definition run_scan :: "world \<Rightarrow> ScanConfig \<Rightarrow> error + scan_result" where
  "run_scan w config =
     (let started = utcnow_isoformat w 0 in
      and_then (validate_target w (config_target config) (config_target_type config)) (\<lambda>normalized_target.
      and_then
        (if str ''nmap'' \<in> set (config_tools config)
         then and_then (run_nmap w normalized_target (config_target_type config) (config_scan_mode config))
                (\<lambda>f. Inr (dict_set [] (str ''nmap'') f))
         else Inr []) (\<lambda>findings1.
      let findings2 =
            (if str ''zap'' \<in> set (config_tools config)
             then dict_set findings1 (str ''zap'')
                    (run_zap w normalized_target (config_target_type config) (config_scan_mode config))
             else findings1);
          findings3 =
            (if str ''arachni'' \<in> set (config_tools config)
             then dict_set findings2 (str ''arachni'')
                    (run_arachni w normalized_target (config_target_type config) (config_scan_mode config))
             else findings2)
      in Inr \<lparr>result_target = normalized_target,
              result_target_type = config_target_type config,
              result_scan_mode = config_scan_mode config,
              result_tools = config_tools config,
              started_at = started,
              finished_at = utcnow_isoformat w 1,
              findings = findings3\<rparr>)))"

section \<open>app.py\<close>

text \<open>
  The dictionary \<open>get_scan\<close> of \<open>storage.py\<close> returns, which the report functions take:
  the row of a scan with the stored result of \<open>run_scan\<close>.
\<close>

record scan_row =
  scan_id :: int
  row_target :: pystr
  row_target_type :: pystr
  row_scan_mode :: pystr
  row_tools :: "pystr list"
  created_at :: pystr
  result :: scan_result

subsection \<open>Text lines of the content stream\<close>

definition escape_pdf_text :: "pystr \<Rightarrow> pystr" where
  "escape_pdf_text v =
     replace_char 41 [92, 41] (replace_char 40 [92, 40] (replace_char 92 [92, 92] v))"

definition draw_text_line :: "int \<Rightarrow> pystr \<Rightarrow> int \<Rightarrow> int \<Rightarrow> pystr" where
  "draw_text_line y text font_size x =
     (let safe = escape_pdf_text (take 160 text) in
      str ''BT /F1 '' @ int_str font_size @ str '' Tf '' @ int_str x @ str '' '' @ int_str y
        @ str '' Td ('' @ safe @ str '') Tj ET'')"

subsection \<open>The risk estimate\<close>

definition extract_port_lines :: "scan_row \<Rightarrow> pystr list" where
  "extract_port_lines scan =
     (let nmap = dict_get (findings (result scan)) (str ''nmap'');
          nmap_phases = (case nmap of None \<Rightarrow> []
                         | Some f \<Rightarrow> (case phases f of None \<Rightarrow> [] | Some ps \<Rightarrow> ps));
          ports = concat (map (\<lambda>p.
                    filter (\<lambda>stripped. contains (str ''/tcp'') stripped
                                       \<and> contains (str ''open'') stripped)
                      (map strip (splitlines (phase_stdout p)))) nmap_phases)
      in take 8 ports)"

text \<open>\<open>findings.get(tool, {}).get("status")\<close>\<close>

definition finding_status :: "(pystr \<times> finding) list \<Rightarrow> pystr \<Rightarrow> pystr option" where
  "finding_status fs tool = map_option status (dict_get fs tool)"

text \<open>
  \<open>_estimate_risk\<close> in three parts: the local variable \<open>issue_count\<close>, the level chosen
  from it, and the list \<open>vulns\<close>.
\<close>

definition issue_count :: "scan_row \<Rightarrow> nat" where
  "issue_count scan =
     (let ports = extract_port_lines scan;
          fs = findings (result scan);
          count0 = length ports;
          count1 = (if finding_status fs (str ''zap'') = Some (str ''available'')
                    then count0 + 2 else count0);
          count2 = (if finding_status fs (str ''arachni'') = Some (str ''available'')
                    then count1 + 2 else count1)
      in count2)"

definition risk_level :: "nat \<Rightarrow> pystr" where
  "risk_level n = (if n \<ge> 6 then str ''HIGH'' else if n \<ge> 3 then str ''MEDIUM'' else str ''LOW'')"

definition no_finding_text :: pystr where
  "no_finding_text = str ''No obvious high-risk service found from available scan output''"

definition vuln_findings :: "pystr list \<Rightarrow> pystr list" where
  "vuln_findings ports =
     (let vulns = map (\<lambda>(idx, port_line).
                    let severity = (if idx mod 2 \<noteq> 0 then str ''LOW'' else str ''MEDIUM'')
                    in str ''['' @ severity @ str ''] '' @ port_line)
                  (enumerate 1 (take 4 ports))
      in if vulns = [] then vulns @ [no_finding_text] else vulns)"

definition estimate_risk :: "scan_row \<Rightarrow> pystr \<times> pystr list" where
  "estimate_risk scan =
     (risk_level (issue_count scan), vuln_findings (extract_port_lines scan))"

subsection \<open>The content stream\<close>

text \<open>
  The two loops of \<open>build_pdf_report\<close> that write one line per entry and move \<open>y\<close> down by
  14: they give the lines and the final \<open>y\<close>.
\<close>

fun draw_entries :: "int \<Rightarrow> int \<Rightarrow> pystr list \<Rightarrow> pystr list \<times> int" where
  "draw_entries y x [] = ([], y)"
| "draw_entries y x (line # rest) =
     (let (more, y_end) = draw_entries (y - 14) x rest
      in (draw_text_line y (str ''- '' @ line) 10 x # more, y_end))"

definition content_head :: "scan_row \<Rightarrow> pystr \<Rightarrow> pystr list" where
  \<comment> \<open>from the header block to the heading of section 3\<close>
  "content_head scan mode =
     [str ''0.05 0.10 0.22 rg'',
      str ''30 770 535 45 re f'',
      str ''0 0 0 rg'',
      draw_text_line 795 (str ''CYBERSECURITY ASSESSMENT REPORT'') 18 45,
      draw_text_line 778 (str ''CONFIDENTIAL SECURITY DOCUMENT'') 10 45,
      draw_text_line 745 (str ''Table of Contents (Sarabany / TOC)'') 14 45,
      draw_text_line 728 (str ''1. Scan Information'') 11 55,
      draw_text_line 712 (str ''2. Host Discovery Results'') 11 55,
      draw_text_line 696 (str ''3. Port & Service Detection Results'') 11 55,
      draw_text_line 680 (str ''4. Vulnerability Findings'') 11 55,
      draw_text_line 664 (str ''5. Risk Summary'') 11 55,
      draw_text_line 648 (str ''6. Observations and Limitations'') 11 55,
      draw_text_line 632 (str ''7. Recommendations'') 11 55,
      draw_text_line 602 (str ''1. SCAN INFORMATION'') 15 45,
      draw_text_line 584 (str ''Target: '' @ row_target scan) 11 55,
      draw_text_line 568 (str ''Scan ID: '' @ int_str (scan_id scan)) 11 55,
      draw_text_line 584 (str ''Date: '' @ created_at scan) 11 300,
      draw_text_line 568 (str ''Status: '' @ str ''COMPLETED'') 11 300,
      draw_text_line 552 (str ''Mode: '' @ mode) 11 300,
      draw_text_line 524 (str ''2. HOST DISCOVERY RESULTS'') 15 45,
      draw_text_line 506 (str ''System checked host '' @ row_target scan
        @ str ''. Reachability depends on network policy/firewall.'') 11 55,
      draw_text_line 478 (str ''3. PORT & SERVICE DETECTION RESULTS'') 15 45]"

definition content_tail :: "pystr \<Rightarrow> nat \<Rightarrow> pystr list" where
  \<comment> \<open>from the second banner to the end\<close>
  "content_tail risk_level_text findings_total =
     [str ''0.05 0.10 0.22 rg'',
      str ''30 365 535 30 re f'',
      draw_text_line 375 (str ''RISK & RECOMMENDATION SUMMARY'') 13 45,
      draw_text_line 340 (str ''5. RISK SUMMARY'') 15 45,
      draw_text_line 322 (str ''Overall Risk Exposure: '' @ risk_level_text) 11 55,
      draw_text_line 306 (str ''Total Findings Identified: '' @ nat_str findings_total) 11 55,
      draw_text_line 288 (str
        ''CVSS Guidance: LOW (0.1-3.9), MEDIUM (4.0-6.9), HIGH (7.0-8.9), CRITICAL (9.0-10)'')
        10 55,
      draw_text_line 258 (str ''6. OBSERVATIONS AND LIMITATIONS'') 15 45,
      draw_text_line 240 (str ''- Results are point-in-time from selected tools and mode.'') 11 55,
      draw_text_line 224 (str ''- Firewall/IDS/IPS may reduce visibility and depth.'') 11 55,
      draw_text_line 208
        (str ''- Some tool outputs may be simulated if binaries are unavailable.'') 11 55,
      draw_text_line 178 (str ''7. RECOMMENDATIONS'') 15 45,
      draw_text_line 160 (str ''- Patch exposed services and verify versions regularly.'') 11 55,
      draw_text_line 144
        (str ''- Run scheduled scans in balanced/deep mode for better coverage.'') 11 55,
      draw_text_line 128
        (str ''- Use authenticated scans and correlate with CVE/CVSS sources.'') 11 55]"

definition content_lines :: "world \<Rightarrow> scan_row \<Rightarrow> pystr list" where
  "content_lines w scan =
     (let mode = upper (unicode_upper w) (row_scan_mode scan);
          (risk_level_text, vuln_lines) = estimate_risk scan;
          port_lines = extract_port_lines scan;
          y = 460;
          (section3, y3) =
            (if port_lines \<noteq> [] then
               let (entries, y_end) = draw_entries (y - 16) 68 (take 6 port_lines)
               in (draw_text_line y (str ''Open ports and services:'') 11 55 # entries, y_end)
             else
               ([draw_text_line y (str ''No open-port line parsed from current output.'') 11 55],
                y - 16));
          y4 = y3 - 8;
          (section4, y_end) = draw_entries (y4 - 20) 55 (take 6 vuln_lines)
      in content_head scan mode
         @ section3
         @ [draw_text_line y4 (str ''4. VULNERABILITY FINDINGS'') 15 45]
         @ section4
         @ content_tail risk_level_text (length vuln_lines))"

definition stream_data :: "world \<Rightarrow> scan_row \<Rightarrow> bytes" where
  "stream_data w scan = encode_latin1_replace (join [10] (content_lines w scan))"

subsection \<open>The objects, the cross-reference section and the trailer\<close>

definition pdf_header :: bytes where
  "pdf_header = bstr ''%PDF-1.4'' @ [10] @ [0x25, 0xE2, 0xE3, 0xCF, 0xD3, 10]"

definition fixed_objects :: "bytes list" where
  "fixed_objects =
     [bstr ''1 0 obj << /Type /Catalog /Pages 2 0 R >> endobj'' @ [10],
      bstr ''2 0 obj << /Type /Pages /Kids [3 0 R] /Count 1 >> endobj'' @ [10],
      bstr ''3 0 obj << /Type /Page /Parent 2 0 R /MediaBox [0 0 595 842] /Resources << /Font << /F1 4 0 R >> >> /Contents 5 0 R >> endobj'' @ [10],
      bstr ''4 0 obj << /Type /Font /Subtype /Type1 /BaseFont /Helvetica >> endobj'' @ [10]]"

definition stream_object :: "bytes \<Rightarrow> error + bytes" where
  "stream_object body =
     and_then (encode_ascii (str ''5 0 obj << /Length '' @ nat_str (length body)
                              @ str '' >> stream'' @ [10])) (\<lambda>declaration.
       Inr (declaration @ body @ [10] @ bstr ''endstream endobj'' @ [10]))"

text \<open>
  The loop over the objects: the offset of each object is the length of the document
  before the object is added.
\<close>

fun add_objects :: "bytes list \<Rightarrow> bytes \<times> nat list \<Rightarrow> bytes \<times> nat list" where
  "add_objects [] (pdf, offsets) = (pdf, offsets)"
| "add_objects (obj # objs) (pdf, offsets) =
     add_objects objs (pdf @ obj, offsets @ [length pdf])"

definition xref_section :: "nat \<Rightarrow> nat list \<Rightarrow> pystr" where
  "xref_section object_count offsets =
     concat ([str ''xref'' @ [10] @ str ''0 '' @ nat_str (object_count + 1) @ [10],
              str ''0000000000 65535 f '' @ [10]]
             @ map (\<lambda>offset. format_010d offset @ str '' 00000 n '' @ [10]) (drop 1 offsets))"

definition trailer_section :: "nat \<Rightarrow> nat \<Rightarrow> pystr" where
  "trailer_section object_count xref_offset =
     str ''trailer'' @ [10] @ str ''<< /Size '' @ nat_str (object_count + 1)
       @ str '' /Root 1 0 R >>'' @ [10]
       @ str ''startxref'' @ [10] @ nat_str xref_offset @ [10] @ str ''%%EOF'' @ [10]"

definition assemble_pdf :: "bytes list \<Rightarrow> error + bytes" where
  \<comment> \<open>\<open>build_pdf_report\<close> from \<open>header = ...\<close> on\<close>
  "assemble_pdf objects =
     (let (pdf, offsets) = add_objects objects (pdf_header, [0]);
          xref_offset = length pdf
      in and_then (encode_ascii (xref_section (length objects) offsets)) (\<lambda>xref.
         and_then (encode_ascii (trailer_section (length objects) xref_offset)) (\<lambda>trailer.
           Inr (pdf @ xref @ trailer))))"

definition build_pdf_report :: "world \<Rightarrow> scan_row \<Rightarrow> error + bytes" where
  "build_pdf_report w scan =
     and_then (stream_object (stream_data w scan)) (\<lambda>object5.
       assemble_pdf (fixed_objects @ [object5]))"

section \<open>Example inputs\<close>

text \<open>
  A world in which no tool is installed, every command runs into the timeout and no
  name resolves.
\<close>

definition quiet_world :: world where
  "quiet_world =
     \<lparr>unicode_lower = (\<lambda>s. s), unicode_upper = (\<lambda>s. s), ip_address = (\<lambda>s. None),
      urlparse = (\<lambda>s. Inl (ValueError [])),
      which = (\<lambda>s. None),
      subprocess_run = (\<lambda>cmd. TimeoutExpired),
      gethostbyname = (\<lambda>s. ResolveOSError),
      utcnow_isoformat = (\<lambda>n. [])\<rparr>"

text \<open>
  A world in which nmap is installed and every command completes with the same three
  lines of output, two of them open-port lines.
\<close>

definition lab_world :: world where
  "lab_world =
     \<lparr>unicode_lower = (\<lambda>s. s), unicode_upper = (\<lambda>s. s), ip_address = (\<lambda>s. None),
      urlparse = (\<lambda>s. Inr \<lparr>scheme = str ''https'', netloc = str ''example.com'',
                            hostname = Some (str ''example.com'')\<rparr>),
      which = (\<lambda>s. if s = str ''nmap'' then Some (str ''/usr/bin/nmap'') else None),
      subprocess_run = (\<lambda>cmd. Completed 0
         (str ''22/tcp open ssh'' @ [10] @ str ''  80/tcp open http  '' @ [13, 10]
            @ str ''443/tcp closed https'') (str ''warning'')),
      gethostbyname = (\<lambda>s. Resolved (str ''93.184.216.34'')),
      utcnow_isoformat = (\<lambda>n. str ''2024-05-01T10:00:0'' @ nat_str n @ str ''+00:00'')\<rparr>"

section \<open>The words of the specification\<close>

text \<open>
  The lines the risk estimator looks at, as the specification names them: every line of
  the \<open>stdout\<close> of every nmap phase, and the test for an open-port line on such a line.
\<close>

definition nmap_phases :: "scan_row \<Rightarrow> phase list" where
  "nmap_phases scan =
     (case dict_get (findings (result scan)) (str ''nmap'') of
        None \<Rightarrow> []
      | Some f \<Rightarrow> (case phases f of None \<Rightarrow> [] | Some ps \<Rightarrow> ps))"

definition nmap_stdout_lines :: "scan_row \<Rightarrow> pystr list" where
  "nmap_stdout_lines scan = concat (map (\<lambda>p. splitlines (phase_stdout p)) (nmap_phases scan))"

definition is_port_line :: "pystr \<Rightarrow> bool" where
  "is_port_line l = (contains (str ''/tcp'') l \<and> contains (str ''open'') l)"

text \<open>
  The findings list as the specification words it: \<open>MEDIUM\<close> for the odd and \<open>LOW\<close> for
  the even of the first four port lines, counted from 1, and the placeholder alone when
  there is no port line.
\<close>

definition claimed_vuln_findings :: "pystr list \<Rightarrow> pystr list" where
  "claimed_vuln_findings ports =
     (if ports = [] then [no_finding_text]
      else map (\<lambda>(idx, port_line).
             str ''['' @ (if odd idx then str ''MEDIUM'' else str ''LOW'') @ str ''] '' @ port_line)
           (enumerate 1 (take 4 ports)))"

text \<open>The order in which \<open>run_scan\<close> asks for the three tools it knows.\<close>

definition adapter_order :: "pystr list" where
  "adapter_order = [str ''nmap'', str ''zap'', str ''arachni'']"

section \<open>Example scans\<close>

text \<open>
  The row of a scan of \<open>example.com\<close> with the given findings, and the finding of an nmap
  run with one phase and the given output.
\<close>

definition example_row :: "(pystr \<times> finding) list \<Rightarrow> scan_row" where
  "example_row fs =
     \<lparr>scan_id = 7, row_target = str ''example.com'', row_target_type = str ''domain'',
      row_scan_mode = str ''quick'', row_tools = map fst fs,
      created_at = str ''2024-05-01T10:00:02'',
      result = \<lparr>result_target = str ''example.com'', result_target_type = str ''domain'',
                result_scan_mode = str ''quick'', result_tools = map fst fs,
                started_at = str ''2024-05-01T10:00:00+00:00'',
                finished_at = str ''2024-05-01T10:00:01+00:00'',
                findings = fs\<rparr>\<rparr>"

definition nmap_finding :: "pystr \<Rightarrow> finding" where
  "nmap_finding output =
     (finding_of_status (str ''completed''))
       \<lparr>target_resolved := Some (str ''93.184.216.34''),
        phases := Some [\<lparr>phase_name = str ''host_discovery'',
                         phase_command = str ''/usr/bin/nmap -sn example.com'',
                         phase_return_code = 0,
                         phase_stdout = output,
                         phase_stderr = []\<rparr>]\<rparr>"

definition five_ports_output :: pystr where
  "five_ports_output =
     str ''21/tcp open ftp'' @ [10] @ str ''22/tcp open ssh'' @ [10]
     @ str ''25/tcp open smtp'' @ [10] @ str ''  80/tcp open http'' @ [13, 10]
     @ str ''443/tcp open https'' @ [10] @ str ''8080/tcp closed http-proxy'' @ [10]"

definition scan_five_ports :: scan_row where
  "scan_five_ports = example_row [(str ''nmap'', nmap_finding five_ports_output)]"

definition scan_five_ports_zap :: scan_row where
  "scan_five_ports_zap =
     example_row [(str ''nmap'', nmap_finding five_ports_output),
                  (str ''zap'', (finding_of_status (str ''available''))
                                  \<lparr>binary := Some (str ''/usr/bin/zaproxy'')\<rparr>)]"

definition scan_one_port :: scan_row where
  "scan_one_port = example_row [(str ''nmap'', nmap_finding (str ''22/tcp open ssh''))]"

definition scan_no_port :: scan_row where
  "scan_no_port =
     example_row [(str ''nmap'', (finding_of_status (str ''skipped''))
                                   \<lparr>reason := Some msg_no_nmap\<rparr>)]"

text \<open>
  A request for an address with the tools out of order and one name that \<open>run_scan\<close> does
  not know.
\<close>

definition config_mixed :: ScanConfig where
  "config_mixed =
     \<lparr>config_target = str '' 10.0.0.1 '', config_target_type = str ''ip'',
      config_scan_mode = str ''quick'',
      config_tools = [str ''zap'', str ''nikto'', str ''nmap'']\<rparr>"

section \<open>Properties\<close>

subsection \<open>The web-scanner adapters\<close>

text \<open>
  C8. For every target, scan mode and target kind other than \<open>url\<close>, \<open>run_zap\<close> and
  \<open>run_arachni\<close> return a finding with status \<open>skipped\<close> and a reason that is not empty.
  They make no external call: the finding is the same in every world.
\<close>

theorem web_scanners_skip_non_url:
  assumes "target_type \<noteq> str ''url''"
  shows "status (run_zap w t target_type m) = str ''skipped''
       \<and> status (run_arachni w t target_type m) = str ''skipped''
       \<and> (\<exists>r. reason (run_zap w t target_type m) = Some r \<and> r \<noteq> [])
       \<and> (\<exists>r. reason (run_arachni w t target_type m) = Some r \<and> r \<noteq> [])
       \<and> run_zap w t target_type m = run_zap w' t target_type m
       \<and> run_arachni w t target_type m = run_arachni w' t target_type m"
  using assms
  by (simp add: run_zap_def run_arachni_def finding_of_status_def
      msg_zap_url_only_def msg_arachni_url_only_def)

theorem web_scanners_skip_non_url_witness:
  "str ''ip'' \<noteq> str ''url''
   \<and> status (run_zap quiet_world (str ''10.0.0.1'') (str ''ip'') (str ''deep'')) = str ''skipped''
   \<and> status (run_arachni quiet_world (str ''10.0.0.1'') (str ''ip'') (str ''deep''))
       = str ''skipped''"
  using web_scanners_skip_non_url
    [of "str ''ip''" quiet_world "str ''10.0.0.1''" "str ''deep''" quiet_world]
  by (simp add: str_def)

subsection \<open>The tool runner\<close>

text \<open>
  C7. When the command runs into the timeout, \<open>_run_command\<close> does not raise: it returns
  an outcome with return code -1, an empty \<open>stdout\<close> and a \<open>stderr\<close> that is not empty and
  contains the word \<open>timeout\<close>. When the command completes, it returns the exit code of the
  process, the last 6000 characters of its output and the last 3000 characters of its
  error output.
\<close>

theorem run_command_outcome:
  "(subprocess_run w cmd = TimeoutExpired \<longrightarrow>
      (\<exists>out. run_command w cmd = Inr out \<and> return_code out = - 1 \<and> stdout out = []
         \<and> stderr out \<noteq> [] \<and> contains (str ''timeout'') (stderr out)))
   \<and> (\<forall>rc so se. subprocess_run w cmd = Completed rc so se \<longrightarrow>
      (\<exists>out. run_command w cmd = Inr out \<and> return_code out = rc
         \<and> stdout out = drop (length so - 6000) so
         \<and> length (stdout out) = min 6000 (length so)
         \<and> stderr out = drop (length se - 3000) se
         \<and> length (stderr out) = min 3000 (length se)))"
  by (auto simp: run_command_def last_chars_def msg_timeout_def str_def)

theorem run_command_outcome_witness:
  "subprocess_run quiet_world [str ''nmap'', str ''-sn'', str ''10.0.0.1''] = TimeoutExpired
   \<and> (\<exists>out. run_command quiet_world [str ''nmap'', str ''-sn'', str ''10.0.0.1''] = Inr out
         \<and> return_code out = - 1 \<and> stdout out = [] \<and> stderr out \<noteq> [])
   \<and> subprocess_run lab_world [str ''nmap'', str ''-sn'', str ''10.0.0.1'']
        = Completed 0 (str ''22/tcp open ssh'' @ [10] @ str ''  80/tcp open http  '' @ [13, 10]
            @ str ''443/tcp closed https'') (str ''warning'')
   \<and> (\<exists>out. run_command lab_world [str ''nmap'', str ''-sn'', str ''10.0.0.1''] = Inr out
         \<and> return_code out = 0 \<and> length (stdout out) = 58 \<and> stderr out = str ''warning'')"
proof -
  let ?cmd = "[str ''nmap'', str ''-sn'', str ''10.0.0.1'']"
  let ?so = "str ''22/tcp open ssh'' @ [10] @ str ''  80/tcp open http  '' @ [13, 10]
            @ str ''443/tcp closed https''"
  have quiet: "subprocess_run quiet_world ?cmd = TimeoutExpired"
    by (simp add: quiet_world_def)
  have lab: "subprocess_run lab_world ?cmd = Completed 0 ?so (str ''warning'')"
    by (simp add: lab_world_def)
  from run_command_outcome [of quiet_world ?cmd] quiet
  have a: "\<exists>out. run_command quiet_world ?cmd = Inr out
         \<and> return_code out = - 1 \<and> stdout out = [] \<and> stderr out \<noteq> []"
    by blast
  from run_command_outcome [of lab_world ?cmd] lab
  obtain out where out: "run_command lab_world ?cmd = Inr out" "return_code out = 0"
      "length (stdout out) = min 6000 (length ?so)"
      "stderr out = drop (length (str ''warning'') - 3000) (str ''warning'')"
    by blast
  have "length (stdout out) = 58" "stderr out = str ''warning''"
    using out(3,4) by (simp_all add: str_def)
  with out(1,2) have b: "\<exists>out. run_command lab_world ?cmd = Inr out
         \<and> return_code out = 0 \<and> length (stdout out) = 58 \<and> stderr out = str ''warning''"
    by blast
  from quiet a lab b show ?thesis by blast
qed

subsection \<open>Substrings and whitespace\<close>

lemma starts_with_iff: "starts_with p s \<longleftrightarrow> (\<exists>post. s = p @ post)"
  by (induction p s rule: starts_with.induct) auto

lemma contains_iff: "contains sub s \<longleftrightarrow> (\<exists>pre post. s = pre @ sub @ post)"
proof (induction s)
  case Nil
  then show ?case by simp
next
  case (Cons c cs)
  show ?case
  proof
    assume "contains sub (c # cs)"
    then consider "starts_with sub (c # cs)" | "contains sub cs" by auto
    then show "\<exists>pre post. c # cs = pre @ sub @ post"
    proof cases
      case 1
      then obtain post where "c # cs = sub @ post" by (auto simp: starts_with_iff)
      then have "c # cs = [] @ sub @ post" by simp
      then show ?thesis by blast
    next
      case 2
      then obtain pre post where "cs = pre @ sub @ post" using Cons.IH by blast
      then have "c # cs = (c # pre) @ sub @ post" by simp
      then show ?thesis by blast
    qed
  next
    assume "\<exists>pre post. c # cs = pre @ sub @ post"
    then obtain pre post where eq: "c # cs = pre @ sub @ post" by blast
    show "contains sub (c # cs)"
    proof (cases pre)
      case Nil
      then have "starts_with sub (c # cs)" using eq by (auto simp: starts_with_iff)
      then show ?thesis by simp
    next
      case (Cons a pre')
      then have "cs = pre' @ sub @ post" using eq by simp
      then have "contains sub cs" using Cons.IH by blast
      then show ?thesis by simp
    qed
  qed
qed

lemma contains_rev: "contains (rev sub) (rev s) = contains sub s"
proof -
  have "(\<exists>pre post. rev s = pre @ rev sub @ post) \<longleftrightarrow> (\<exists>pre post. s = pre @ sub @ post)"
  proof
    assume "\<exists>pre post. rev s = pre @ rev sub @ post"
    then obtain pre post where "rev s = pre @ rev sub @ post" by blast
    then have "rev (rev s) = rev (pre @ rev sub @ post)" by simp
    then have "s = rev post @ sub @ rev pre" by simp
    then show "\<exists>pre post. s = pre @ sub @ post" by blast
  next
    assume "\<exists>pre post. s = pre @ sub @ post"
    then obtain pre post where "s = pre @ sub @ post" by blast
    then have "rev s = rev post @ rev sub @ rev pre" by simp
    then show "\<exists>pre post. rev s = pre @ rev sub @ post" by blast
  qed
  then show ?thesis by (simp add: contains_iff)
qed

lemma contains_dropWhile:
  assumes "sub \<noteq> []" "\<not> isspace (hd sub)"
  shows "contains sub (dropWhile isspace s) = contains sub s"
proof (induction s)
  case Nil
  then show ?case by simp
next
  case (Cons c cs)
  show ?case
  proof (cases "isspace c")
    case True
    have "\<not> starts_with sub (c # cs)"
      using assms True by (cases sub) auto
    then show ?thesis using True Cons.IH by simp
  next
    case False
    then show ?thesis by simp
  qed
qed

lemma contains_strip:
  assumes "sub \<noteq> []" "\<not> isspace (hd sub)" "\<not> isspace (last sub)"
  shows "contains sub (strip s) = contains sub s"
proof -
  have r: "rev sub \<noteq> []" "\<not> isspace (hd (rev sub))"
    using assms by (simp_all add: hd_rev)
  have "contains sub (strip s) = contains (rev sub) (dropWhile isspace (rev (dropWhile isspace s)))"
    unfolding strip_def by (metis contains_rev rev_rev_ident)
  also have "\<dots> = contains (rev sub) (rev (dropWhile isspace s))"
    by (rule contains_dropWhile [OF r])
  also have "\<dots> = contains sub (dropWhile isspace s)"
    by (rule contains_rev)
  also have "\<dots> = contains sub s"
    by (rule contains_dropWhile [OF assms(1,2)])
  finally show ?thesis .
qed

lemma is_port_line_strip: "is_port_line (strip l) = is_port_line l"
proof -
  have a: "contains (str ''/tcp'') (strip l) = contains (str ''/tcp'') l"
    by (rule contains_strip) (simp_all add: str_def isspace_def)
  have b: "contains (str ''open'') (strip l) = contains (str ''open'') l"
    by (rule contains_strip) (simp_all add: str_def isspace_def)
  show ?thesis unfolding is_port_line_def a b ..
qed


lemma filter_port_lines_strip:
  "filter (\<lambda>stripped. contains (str ''/tcp'') stripped \<and> contains (str ''open'') stripped)
     (map strip ls) = map strip (filter is_port_line ls)"
proof -
  have "filter is_port_line (map strip ls) = map strip (filter is_port_line ls)"
    by (induction ls) (simp_all add: is_port_line_strip)
  then show ?thesis unfolding is_port_line_def .
qed

lemma map_strip_filter_concat:
  "concat (map (\<lambda>p. map strip (filter is_port_line (g p))) ps)
     = map strip (filter is_port_line (concat (map g ps)))"
  by (induction ps) simp_all

lemma extract_port_lines_eq:
  "extract_port_lines scan = take 8 (map strip (filter is_port_line (nmap_stdout_lines scan)))"
  unfolding extract_port_lines_def Let_def filter_port_lines_strip map_strip_filter_concat
    nmap_stdout_lines_def nmap_phases_def ..

subsection \<open>The risk estimate\<close>

text \<open>Unfolding the example scans and the string methods on concrete strings.\<close>

lemmas example_defs = scan_five_ports_def scan_five_ports_zap_def scan_one_port_def scan_no_port_def
  example_row_def nmap_finding_def five_ports_output_def finding_of_status_def

lemmas string_defs = str_def splitlines_def is_linebreak_def isspace_def strip_def

lemma five_ports_matched:
  "length (filter is_port_line (nmap_stdout_lines scan_five_ports)) = 5"
  "length (filter is_port_line (nmap_stdout_lines scan_five_ports_zap)) = 5"
  by (simp_all add: nmap_stdout_lines_def nmap_phases_def dict_get_def is_port_line_def
      example_defs string_defs)

lemma five_ports_status:
  "finding_status (findings (result scan_five_ports)) (str ''zap'') = None"
  "finding_status (findings (result scan_five_ports)) (str ''arachni'') = None"
  "finding_status (findings (result scan_five_ports_zap)) (str ''zap'') = Some (str ''available'')"
  "finding_status (findings (result scan_five_ports_zap)) (str ''arachni'') = None"
  by (simp_all add: finding_status_def dict_get_def example_defs str_def)

text \<open>
  C2. \<open>issue_count\<close> is the number of lines of the nmap phases' \<open>stdout\<close> that contain
  both \<open>/tcp\<close> and \<open>open\<close>, capped at 8, plus 2 if the status of the zap finding is
  \<open>available\<close>, plus 2 if the status of the arachni finding is \<open>available\<close>. The level is
  \<open>HIGH\<close> from 6 on, \<open>MEDIUM\<close> from 3 to 5 and \<open>LOW\<close> below. Five open-port lines and no
  available web scanner give 5 and \<open>MEDIUM\<close>; with an available zap finding they give 7
  and \<open>HIGH\<close>.
\<close>

theorem issue_count_and_level:
  "let matched = length (filter is_port_line (nmap_stdout_lines scan));
       zap = (finding_status (findings (result scan)) (str ''zap'') = Some (str ''available''));
       arachni = (finding_status (findings (result scan)) (str ''arachni'')
                    = Some (str ''available''))
   in issue_count scan = min 8 matched + (if zap then 2 else 0) + (if arachni then 2 else 0)
    \<and> fst (estimate_risk scan) =
           (if issue_count scan \<ge> 6 then str ''HIGH''
            else if issue_count scan \<ge> 3 then str ''MEDIUM'' else str ''LOW'')
    \<and> (matched = 5 \<and> \<not> zap \<and> \<not> arachni \<longrightarrow>
           issue_count scan = 5 \<and> fst (estimate_risk scan) = str ''MEDIUM'')
    \<and> (matched = 5 \<and> zap \<and> \<not> arachni \<longrightarrow>
           issue_count scan = 7 \<and> fst (estimate_risk scan) = str ''HIGH'')"
proof -
  define matched where "matched = length (filter is_port_line (nmap_stdout_lines scan))"
  define zap where
    "zap = (finding_status (findings (result scan)) (str ''zap'') = Some (str ''available''))"
  define arachni where
    "arachni = (finding_status (findings (result scan)) (str ''arachni'')
                  = Some (str ''available''))"
  have ic: "issue_count scan
      = min 8 matched + (if zap then 2 else 0) + (if arachni then 2 else 0)"
    by (simp add: issue_count_def extract_port_lines_eq matched_def zap_def arachni_def Let_def
        min.commute)
  have lv: "fst (estimate_risk scan) =
           (if issue_count scan \<ge> 6 then str ''HIGH''
            else if issue_count scan \<ge> 3 then str ''MEDIUM'' else str ''LOW'')"
    by (simp add: estimate_risk_def risk_level_def)
  have five: "matched = 5 \<and> \<not> zap \<and> \<not> arachni \<longrightarrow>
           issue_count scan = 5 \<and> fst (estimate_risk scan) = str ''MEDIUM''"
    using ic lv by simp
  have seven: "matched = 5 \<and> zap \<and> \<not> arachni \<longrightarrow>
           issue_count scan = 7 \<and> fst (estimate_risk scan) = str ''HIGH''"
    using ic lv by simp
  from ic lv five seven show ?thesis
    unfolding Let_def matched_def zap_def arachni_def by blast
qed

theorem issue_count_and_level_witness:
  "length (filter is_port_line (nmap_stdout_lines scan_five_ports)) = 5
   \<and> issue_count scan_five_ports = 5 \<and> fst (estimate_risk scan_five_ports) = str ''MEDIUM''
   \<and> length (filter is_port_line (nmap_stdout_lines scan_five_ports_zap)) = 5
   \<and> issue_count scan_five_ports_zap = 7 \<and> fst (estimate_risk scan_five_ports_zap) = str ''HIGH''"
  using issue_count_and_level [of scan_five_ports]
    issue_count_and_level [of scan_five_ports_zap]
  by (simp add: Let_def five_ports_matched five_ports_status)

lemma one_port_lines: "extract_port_lines scan_one_port = [str ''22/tcp open ssh'']"
  by (simp add: extract_port_lines_def dict_get_def example_defs string_defs)

lemma no_port_lines: "extract_port_lines scan_no_port = []"
  by (simp add: extract_port_lines_def dict_get_def example_defs string_defs)

lemma five_port_lines:
  "extract_port_lines scan_five_ports =
     [str ''21/tcp open ftp'', str ''22/tcp open ssh'', str ''25/tcp open smtp'',
      str ''80/tcp open http'', str ''443/tcp open https'']"
  by (simp add: extract_port_lines_def dict_get_def example_defs string_defs)

text \<open>
  With one open-port line the code labels it \<open>LOW\<close>; the findings list worded in the
  specification labels it \<open>MEDIUM\<close>.
\<close>

theorem vuln_findings_claimed_counterexample:
  "snd (estimate_risk scan_one_port) = [str ''[LOW] 22/tcp open ssh'']
   \<and> claimed_vuln_findings (extract_port_lines scan_one_port) = [str ''[MEDIUM] 22/tcp open ssh'']
   \<and> snd (estimate_risk scan_one_port) \<noteq> claimed_vuln_findings (extract_port_lines scan_one_port)"
  by (simp add: estimate_risk_def one_port_lines vuln_findings_def claimed_vuln_findings_def
      enumerate_eq_zip str_def)

lemma vuln_findings_nth:
  assumes "ports \<noteq> []"
  shows "length (vuln_findings ports) = min 4 (length ports)"
    and "i < length (vuln_findings ports) \<Longrightarrow>
      vuln_findings ports ! i
        = str ''['' @ (if odd (i + 1) then str ''LOW'' else str ''MEDIUM'') @ str ''] '' @ ports ! i"
proof -
  let ?f = "\<lambda>(idx :: nat, port_line).
       let severity = (if idx mod 2 \<noteq> 0 then str ''LOW'' else str ''MEDIUM'')
       in str ''['' @ severity @ str ''] '' @ port_line"
  have ne: "map ?f (enumerate 1 (take 4 ports)) \<noteq> []"
    using assms by (cases ports) (simp_all add: enumerate_eq_zip)
  then have eq: "vuln_findings ports = map ?f (enumerate 1 (take 4 ports))"
    by (simp add: vuln_findings_def Let_def)
  show len: "length (vuln_findings ports) = min 4 (length ports)"
    by (simp add: eq min.commute)
  assume "i < length (vuln_findings ports)"
  then have i: "i < min 4 (length ports)" using len by simp
  then have "vuln_findings ports ! i = ?f (Suc i, ports ! i)"
    unfolding eq by (simp add: nth_enumerate_eq)
  also have "\<dots> = str ''['' @ (if odd (i + 1) then str ''LOW'' else str ''MEDIUM'') @ str ''] '' @ ports ! i"
    by (cases "even i") (simp_all add: even_iff_mod_2_eq_zero mod_Suc)
  finally show "vuln_findings ports ! i
        = str ''['' @ (if odd (i + 1) then str ''LOW'' else str ''MEDIUM'') @ str ''] '' @ ports ! i" .
qed

text \<open>
  C1, amended. The port lines are the first 8 stripped open-port lines of the nmap
  phases. When there is at least one, the findings list has one entry for each of the
  first 4, the line prefixed with \<open>[LOW]\<close> at the odd and \<open>[MEDIUM]\<close> at the even
  positions, counted from 1. When there is none, the findings list is exactly the
  placeholder.
\<close>

theorem vuln_findings_labels:
  "let ports = extract_port_lines scan; vulns = snd (estimate_risk scan) in
     ports = take 8 (map strip (filter is_port_line (nmap_stdout_lines scan)))
     \<and> (ports \<noteq> [] \<longrightarrow>
          length vulns = min 4 (length ports)
          \<and> (\<forall>i < length vulns. vulns ! i
               = str ''['' @ (if odd (i + 1) then str ''LOW'' else str ''MEDIUM'') @ str ''] ''
                   @ ports ! i))
     \<and> (ports = [] \<longrightarrow> vulns = [no_finding_text])"
  unfolding Let_def
  using vuln_findings_nth [of "extract_port_lines scan"] extract_port_lines_eq [of scan]
  by (auto simp: estimate_risk_def vuln_findings_def enumerate_eq_zip)

theorem vuln_findings_labels_witness:
  "extract_port_lines scan_five_ports \<noteq> []
   \<and> length (snd (estimate_risk scan_five_ports)) = 4
   \<and> snd (estimate_risk scan_five_ports) ! 0 = str ''[LOW] 21/tcp open ftp''
   \<and> snd (estimate_risk scan_five_ports) ! 1 = str ''[MEDIUM] 22/tcp open ssh''
   \<and> extract_port_lines scan_no_port = []
   \<and> snd (estimate_risk scan_no_port) = [no_finding_text]"
proof -
  from vuln_findings_labels [of scan_five_ports]
  have five: "length (snd (estimate_risk scan_five_ports)) = 4"
    "\<forall>i < length (snd (estimate_risk scan_five_ports)). snd (estimate_risk scan_five_ports) ! i
       = str ''['' @ (if odd (i + 1) then str ''LOW'' else str ''MEDIUM'') @ str ''] ''
           @ extract_port_lines scan_five_ports ! i"
    by (simp_all add: Let_def five_port_lines)
  from five have a: "snd (estimate_risk scan_five_ports) ! 0 = str ''[LOW] 21/tcp open ftp''"
    by (simp add: five_port_lines str_def)
  from five have b: "snd (estimate_risk scan_five_ports) ! 1 = str ''[MEDIUM] 22/tcp open ssh''"
    by (simp add: five_port_lines str_def)
  from vuln_findings_labels [of scan_no_port]
  have c: "snd (estimate_risk scan_no_port) = [no_finding_text]"
    by (simp add: Let_def no_port_lines)
  show ?thesis using five(1) a b c by (simp add: five_port_lines no_port_lines)
qed

end
